theory Spec2Isabelle
  imports Complex_Main
begin

section \<open>Values of the host language\<close>

text \<open>
  An exponent of the gate is a Python number or a \<open>cirq.Symbol\<close>. Python integers are
  unbounded (\<open>IntE\<close>); Python floats are idealised as real numbers (\<open>FloatE\<close>), so rounding
  is not part of this development. \<open>SymE\<close> is a symbol, identified by its name.

  Modelled from the spec: the host library's symbol arithmetic is not part of the
  repository. The decomposition negates the stored exponent; for a symbolic exponent
  "the NOT-power step is left symbolic rather than evaluated", which is the constructor
  \<open>NegE\<close>.
\<close>

datatype exponent = IntE int | FloatE real | SymE string | NegE exponent

text \<open>Python's unary minus on an exponent.\<close>

fun py_neg :: "exponent \<Rightarrow> exponent" where
  "py_neg (IntE n) = IntE (- n)"
| "py_neg (FloatE x) = FloatE (- x)"
| "py_neg (SymE s) = NegE (SymE s)"
| "py_neg (NegE e) = NegE (NegE e)"

text \<open>
  The real number an exponent stands for, once every symbol has been given a value by
  the resolver \<open>\<rho>\<close>.
\<close>

fun exponent_value :: "(string \<Rightarrow> real) \<Rightarrow> exponent \<Rightarrow> real" where
  "exponent_value \<rho> (IntE n) = real_of_int n"
| "exponent_value \<rho> (FloatE x) = x"
| "exponent_value \<rho> (SymE s) = \<rho> s"
| "exponent_value \<rho> (NegE e) = - exponent_value \<rho> e"

text \<open>
  Python's \<open>==\<close>: numbers compare by value whatever their type (\<open>1 == 1.0\<close>), a symbol
  equals only a symbol of the same name, and a symbol never equals a number.
\<close>

fun py_eq :: "exponent \<Rightarrow> exponent \<Rightarrow> bool" where
  "py_eq (IntE m) (IntE n) = (m = n)"
| "py_eq (IntE m) (FloatE y) = (real_of_int m = y)"
| "py_eq (FloatE x) (IntE n) = (x = real_of_int n)"
| "py_eq (FloatE x) (FloatE y) = (x = y)"
| "py_eq (SymE s) (SymE t) = (s = t)"
| "py_eq (NegE a) (NegE b) = py_eq a b"
| "py_eq _ _ = False"

text \<open>The decimal digits of a natural number, and Python's \<open>repr\<close> of an integer.\<close>

definition digit_char :: "nat \<Rightarrow> char" where
  "digit_char n = ''0123456789'' ! n"

function nat_repr :: "nat \<Rightarrow> string" where
  "nat_repr n = (if n < 10 then [digit_char n] else nat_repr (n div 10) @ [digit_char (n mod 10)])"
  by pat_completeness auto
termination
  by (relation "measure id") auto

definition int_repr :: "int \<Rightarrow> string" where
  "int_repr i = (if i < 0 then CHR ''-'' # nat_repr (nat (- i)) else nat_repr (nat i))"

text \<open>
  \<open>repr\<close> of an exponent. The text of a float and of a symbol is produced by the host
  (the shortest round-trip digits of a float, the symbol class's own \<open>__repr__\<close>); it is
  the parameter \<open>host_repr\<close>.
\<close>

fun py_repr :: "(exponent \<Rightarrow> string) \<Rightarrow> exponent \<Rightarrow> string" where
  "py_repr host_repr (IntE n) = int_repr n"
| "py_repr host_repr e = host_repr e"

section \<open>The double excitation gate: construction\<close>

datatype error = ValueError string

record DoubleExcitationGate =
  gate_exponent :: exponent

text \<open>
  Modelled from the spec: \<open>cirq.value.chosen_angle_to_half_turns\<close> belongs to the host
  library. It is the "helper that consistently converts whichever single unit was given,
  or returns the default of 1 if none given": radians are divided by \<open>\<pi>\<close>, degrees by 180,
  half-turns are returned as they are, and it refuses more than one unit.
\<close>

definition chosen_angle_to_half_turns ::
  "exponent option \<Rightarrow> real option \<Rightarrow> real option \<Rightarrow> error + exponent" where
  "chosen_angle_to_half_turns half_turns rads degs =
     (if 1 < length (filter (\<lambda>b. b) [half_turns \<noteq> None, rads \<noteq> None, degs \<noteq> None])
      then Inl (ValueError ''Redundant angle specification. Use ONE of half_turns, rads, or degs.'')
      else case rads of Some x \<Rightarrow> Inr (FloatE (x / pi))
      | None \<Rightarrow> (case degs of Some d \<Rightarrow> Inr (FloatE (d / 180))
        | None \<Rightarrow> (case half_turns of Some h \<Rightarrow> Inr h
          | None \<Rightarrow> Inr (FloatE 1))))"

text \<open>
  \<open>DoubleExcitationGate.__init__\<close>. The base class's constructor stores the exponent it
  is given.
\<close>

definition DoubleExcitationGate_init ::
  "exponent option \<Rightarrow> real option \<Rightarrow> real option \<Rightarrow> real option \<Rightarrow> error + DoubleExcitationGate" where
  "DoubleExcitationGate_init half_turns rads degs duration =
     (if 1 < length (filter (\<lambda>b. b)
               [half_turns \<noteq> None, rads \<noteq> None, degs \<noteq> None, duration \<noteq> None])
      then Inl (ValueError
        ''Redundant exponent specification. Use ONE of half_turns, rads, degs, or duration.'')
      else case duration of
        Some d \<Rightarrow> Inr \<lparr>gate_exponent = FloatE (2 * d / pi)\<rparr>
      | None \<Rightarrow> (case chosen_angle_to_half_turns half_turns rads degs of
          Inl e \<Rightarrow> Inl e
        | Inr exponent \<Rightarrow> Inr \<lparr>gate_exponent = exponent\<rparr>))"

definition half_turns :: "DoubleExcitationGate \<Rightarrow> exponent" where
  "half_turns self = gate_exponent self"

definition canonical_exponent_period :: "DoubleExcitationGate \<Rightarrow> real option" where
  "canonical_exponent_period self = Some 2"

definition with_exponent :: "DoubleExcitationGate \<Rightarrow> exponent \<Rightarrow> error + DoubleExcitationGate" where
  "with_exponent self exponent = DoubleExcitationGate_init (Some exponent) None None None"

text \<open>\<open>__repr__\<close>.\<close>

definition gate_repr :: "(exponent \<Rightarrow> string) \<Rightarrow> DoubleExcitationGate \<Rightarrow> string" where
  "gate_repr host_repr self =
     (if py_eq (half_turns self) (IntE 1) then ''DoubleExcitation''
      else ''DoubleExcitation**'' @ py_repr host_repr (half_turns self))"

text \<open>The module constant \<open>DoubleExcitation = DoubleExcitationGate()\<close>.\<close>

definition DoubleExcitation :: "error + DoubleExcitationGate" where
  "DoubleExcitation = DoubleExcitationGate_init None None None None"

text \<open>
  \<open>text_diagram_info\<close>: the wire symbols and the exponent shown in a diagram. A Python
  string is a sequence of Unicode code points; the two arrows are U+21C5 and U+21F5, the
  ASCII variants are the five characters slash, backslash, space, backslash, slash and
  backslash, slash, space, slash, backslash.
\<close>

record TextDiagramInfo =
  wire_symbols :: "nat list list"
  diagram_exponent :: exponent

definition text_diagram_info :: "DoubleExcitationGate \<Rightarrow> bool \<Rightarrow> TextDiagramInfo" where
  "text_diagram_info self use_unicode_characters =
     (let wire_symbols =
        (if use_unicode_characters then [[0x21C5], [0x21C5], [0x21F5], [0x21F5]]
         else [[47, 92, 32, 92, 47], [47, 92, 32, 92, 47],
               [92, 47, 32, 47, 92], [92, 47, 32, 47, 92]])
      in \<lparr>wire_symbols = wire_symbols, diagram_exponent = half_turns self\<rparr>)"

section \<open>Matrices as nested lists\<close>

text \<open>
  A numpy array of shape (m, n) is a list of m rows of n entries. The operations below
  are the ones the gate and the host's matrix semantics use.
\<close>

type_synonym 'a matrix = "'a list list"

definition zeros :: "nat \<Rightarrow> nat \<Rightarrow> 'a::zero matrix" where
  "zeros m n = replicate m (replicate n 0)"

text \<open>The assignment \<open>M[i, j] = x\<close>; every index used by the gate is in range.\<close>

definition set_entry :: "'a matrix \<Rightarrow> nat \<Rightarrow> nat \<Rightarrow> 'a \<Rightarrow> 'a matrix" where
  "set_entry M i j x = M[i := (M ! i)[j := x]]"

definition diag :: "'a::zero list \<Rightarrow> 'a matrix" where
  "diag d = map (\<lambda>i. map (\<lambda>j. if i = j then d ! i else 0) [0..<length d]) [0..<length d]"

definition tabulate :: "nat \<Rightarrow> (nat \<Rightarrow> nat \<Rightarrow> 'a) \<Rightarrow> 'a matrix" where
  "tabulate n f = map (\<lambda>i. map (\<lambda>j. f i j) [0..<n]) [0..<n]"

definition identity :: "nat \<Rightarrow> 'a::{zero,one} matrix" where
  "identity n = tabulate n (\<lambda>i j. if i = j then 1 else 0)"

definition ncols :: "'a matrix \<Rightarrow> nat" where
  "ncols M = (case M of [] \<Rightarrow> 0 | row # _ \<Rightarrow> length row)"

definition mat_add :: "'a::plus matrix \<Rightarrow> 'a matrix \<Rightarrow> 'a matrix" where
  "mat_add A B = map2 (map2 (+)) A B"

definition mat_scale :: "'a::times \<Rightarrow> 'a matrix \<Rightarrow> 'a matrix" where
  "mat_scale c A = map (map ((*) c)) A"

definition mat_mul :: "'a::semiring_0 matrix \<Rightarrow> 'a matrix \<Rightarrow> 'a matrix" where
  "mat_mul A B =
     map (\<lambda>i. map (\<lambda>j. sum_list (map (\<lambda>k. A ! i ! k * B ! k ! j) [0..<length B]))
                [0..<ncols B]) [0..<length A]"

definition mat_transpose :: "'a matrix \<Rightarrow> 'a matrix" where
  "mat_transpose A = map (\<lambda>j. map (\<lambda>i. A ! i ! j) [0..<length A]) [0..<ncols A]"

definition trace :: "'a::comm_monoid_add matrix \<Rightarrow> 'a" where
  "trace A = sum_list (map (\<lambda>i. A ! i ! i) [0..<length A])"

text \<open>
  The orthogonal projector onto the line spanned by a non-zero real vector \<open>u\<close>: the
  outer product of \<open>u\<close> with itself, divided by the squared length of \<open>u\<close>.
\<close>

definition unit_vector :: "nat \<Rightarrow> nat \<Rightarrow> real list" where
  "unit_vector n k = map (\<lambda>i. if i = k then 1 else 0) [0..<n]"

definition projector_onto :: "real list \<Rightarrow> real matrix" where
  "projector_onto u =
     map (\<lambda>x. map (\<lambda>y. x * y / sum_list (map (\<lambda>z. z * z) u)) u) u"

section \<open>The double excitation gate: eigen-components and operator\<close>

definition minus_one_component :: "real matrix" where
  "minus_one_component =
     (let m = zeros 16 16;
          m = set_entry m 3 3 0.5;
          m = set_entry m 12 12 0.5;
          m = set_entry m 3 12 (- 0.5);
          m = set_entry m 12 3 (- 0.5)
      in m)"

definition plus_one_component :: "real matrix" where
  "plus_one_component =
     (let m = zeros 16 16;
          m = set_entry m 3 3 0.5;
          m = set_entry m 12 12 0.5;
          m = set_entry m 3 12 0.5;
          m = set_entry m 12 3 0.5
      in m)"

definition eigen_components :: "DoubleExcitationGate \<Rightarrow> (real \<times> real matrix) list" where
  "eigen_components self =
     [(0, diag [1, 1, 1, 0, 1, 1, 1, 1, 1, 1, 1, 1, 0, 1, 1, 1]),
      (- 1, minus_one_component),
      (1, plus_one_component)]"

text \<open>
  Modelled from the spec: the eigen-operator base class belongs to the host library.
  "Applying the gate with exponent \<open>\<theta>\<close> is equivalent, for all \<open>\<theta>\<close>, to the operator
  \<open>\<Sum>\<^sub>i exp(i\<pi>\<lambda>\<^sub>i\<theta>) P\<^sub>i\<close> over the eigen-components \<open>(\<lambda>\<^sub>i, P\<^sub>i)\<close>"; \<open>n\<close> is the dimension of
  the state space.
\<close>

definition eigen_phase :: "real \<Rightarrow> real \<Rightarrow> complex" where
  "eigen_phase l \<theta> = exp (\<i> * complex_of_real (pi * l * \<theta>))"

definition eigen_operator :: "nat \<Rightarrow> (real \<times> real matrix) list \<Rightarrow> real \<Rightarrow> complex matrix" where
  "eigen_operator n components \<theta> =
     foldl mat_add (zeros n n)
       (map (\<lambda>(l, P). mat_scale (eigen_phase l \<theta>) (map (map complex_of_real) P)) components)"

text \<open>The matrix of the gate on its four qubits, for a resolver \<open>\<rho>\<close> of the symbols.\<close>

definition gate_matrix :: "(string \<Rightarrow> real) \<Rightarrow> DoubleExcitationGate \<Rightarrow> complex matrix" where
  "gate_matrix \<rho> self =
     eigen_operator 16 (eigen_components self) (exponent_value \<rho> (half_turns self))"

section \<open>The double excitation gate: decomposition\<close>

text \<open>
  The primitive operations of the host that the decomposition emits: a controlled NOT
  (control first, target second), and a NOT or a phase gate on one qubit, raised to a
  power. \<open>cirq.X(q)\<close> is the NOT with exponent 1 and \<open>cirq.X(q) ** t\<close> the one with
  exponent \<open>t\<close>; likewise for \<open>cirq.Z\<close>.
\<close>

datatype 'q operation = CNOT 'q 'q | XPow 'q exponent | ZPow 'q exponent

text \<open>
  What a generator yields is an operation or a nested list of such; the host flattens it
  depth first, left to right.
\<close>

datatype 'q op_tree = Op "'q operation" | Tree "'q op_tree list"

fun flatten_op_tree :: "'q op_tree \<Rightarrow> 'q operation list" where
  "flatten_op_tree (Op x) = [x]"
| "flatten_op_tree (Tree ts) = concat (map flatten_op_tree ts)"

definition X :: "'q \<Rightarrow> 'q operation" where
  "X q = XPow q (IntE 1)"

text \<open>
  \<open>default_decompose\<close>. Unpacking \<open>qubits\<close> into four names fails unless there are
  exactly four of them.
\<close>

definition default_decompose :: "DoubleExcitationGate \<Rightarrow> 'q list \<Rightarrow> error + 'q op_tree list" where
  "default_decompose self qubits =
     (case qubits of
        [p, q, r, s] \<Rightarrow>
          (let rq_phase_block = [Op (ZPow q (FloatE 0.125)),
                                 Op (CNOT r q),
                                 Op (ZPow q (FloatE (- 0.125)))];
               srq_parity_transform = [Op (CNOT s r),
                                       Op (CNOT r q),
                                       Op (CNOT s r)];
               phase_parity_block = Tree [Tree [Tree rq_phase_block,
                                                Tree srq_parity_transform,
                                                Tree rq_phase_block]]
           in Inr [Op (CNOT r s),
                   Op (CNOT q p),
                   Op (CNOT q r),
                   Op (XPow q (py_neg (half_turns self))),
                   phase_parity_block,
                   Op (CNOT p q),
                   Op (X q),
                   phase_parity_block,
                   Op (XPow q (half_turns self)),
                   phase_parity_block,
                   Op (CNOT p q),
                   Op (X q),
                   phase_parity_block,
                   Op (CNOT q p),
                   Op (CNOT q r),
                   Op (CNOT r s)])
      | _ \<Rightarrow> Inl (ValueError ''wrong number of values to unpack (expected 4)''))"

text \<open>The flat sequence of operations of a decomposition.\<close>

definition decomposition_ops :: "DoubleExcitationGate \<Rightarrow> 'q list \<Rightarrow> error + 'q operation list" where
  "decomposition_ops self qubits =
     (case default_decompose self qubits of
        Inl e \<Rightarrow> Inl e
      | Inr trees \<Rightarrow> Inr (flatten_op_tree (Tree trees)))"

section \<open>The unitary of a circuit\<close>

text \<open>
  Modelled from the spec: the matrices of the host's primitive gates and the composition
  of operations into a circuit's unitary belong to the host library. A register of \<open>n\<close>
  qubits has the basis states \<open>0 .. 2^n - 1\<close>, the first qubit of the order being the most
  significant bit. A NOT to the power \<open>t\<close> and a phase gate to the power \<open>t\<close> are
  themselves eigen-operators: with \<open>w = exp(i\<pi>t)\<close> the former is
  \<open>(1+w)/2\<close> on the diagonal and \<open>(1-w)/2\<close> off it, the latter is \<open>diag(1, w)\<close>.
\<close>

definition qubit_position :: "'q list \<Rightarrow> 'q \<Rightarrow> nat" where
  "qubit_position order x = length (takeWhile (\<lambda>y. y \<noteq> x) order)"

definition qbit :: "nat \<Rightarrow> nat \<Rightarrow> nat \<Rightarrow> bool" where
  "qbit n k i = odd (i div 2 ^ (n - 1 - k))"

definition flipq :: "nat \<Rightarrow> nat \<Rightarrow> nat \<Rightarrow> nat" where
  "flipq n k i = (if qbit n k i then i - 2 ^ (n - 1 - k) else i + 2 ^ (n - 1 - k))"

definition cnot_index :: "nat \<Rightarrow> nat \<Rightarrow> nat \<Rightarrow> nat \<Rightarrow> nat" where
  "cnot_index n c t i = (if qbit n c i then flipq n t i else i)"

definition turn :: "(string \<Rightarrow> real) \<Rightarrow> exponent \<Rightarrow> complex" where
  "turn \<rho> e = exp (\<i> * complex_of_real (pi * exponent_value \<rho> e))"

fun op_entry :: "(string \<Rightarrow> real) \<Rightarrow> nat \<Rightarrow> nat operation \<Rightarrow> nat \<Rightarrow> nat \<Rightarrow> complex" where
  "op_entry \<rho> n (CNOT c t) i j = (if i = cnot_index n c t j then 1 else 0)"
| "op_entry \<rho> n (XPow k e) i j =
     (if i = j then (1 + turn \<rho> e) / 2
      else if i = flipq n k j then (1 - turn \<rho> e) / 2 else 0)"
| "op_entry \<rho> n (ZPow k e) i j =
     (if i = j then (if qbit n k j then turn \<rho> e else 1) else 0)"

definition op_matrix :: "(string \<Rightarrow> real) \<Rightarrow> 'q list \<Rightarrow> 'q operation \<Rightarrow> complex matrix" where
  "op_matrix \<rho> order x =
     tabulate (2 ^ length order)
       (op_entry \<rho> (length order) (map_operation (qubit_position order) x))"

text \<open>Operations act in the order of the list: a later one multiplies from the left.\<close>

definition circuit_unitary :: "(string \<Rightarrow> real) \<Rightarrow> 'q list \<Rightarrow> 'q operation list \<Rightarrow> complex matrix" where
  "circuit_unitary \<rho> order ops =
     foldl (\<lambda>U x. mat_mul (op_matrix \<rho> order x) U) (identity (2 ^ length order)) ops"

text \<open>Equality of two matrices up to one global phase.\<close>

definition equal_up_to_global_phase :: "complex matrix \<Rightarrow> complex matrix \<Rightarrow> bool" where
  "equal_up_to_global_phase A B = (\<exists>c. cmod c = 1 \<and> A = mat_scale c B)"

text \<open>
  A row of the circuit's unitary applied to a vector, read from the last operation back
  to the first (the list is the reversed circuit); an auxiliary function of the proofs.
\<close>

fun row_action :: "(string \<Rightarrow> real) \<Rightarrow> nat operation list \<Rightarrow> (nat \<Rightarrow> complex) \<Rightarrow> nat \<Rightarrow> complex" where
  "row_action \<rho> [] v i = v i"
| "row_action \<rho> (x # earlier) v i = (\<Sum>k<16. op_entry \<rho> 4 x i k * row_action \<rho> earlier v k)"

section \<open>The Trotter step template\<close>

text \<open>
  The default method bodies of \<open>TrotterStepAlgorithm\<close>. An operation tree is whatever the
  host makes of the returned value; the defaults return the empty tuple, modelled as the
  empty list of operations of an arbitrary type. \<open>trotter_step\<close> is abstract and has no
  body.
\<close>

definition controlled :: bool where
  "controlled = False"

definition prepare :: "'q list \<Rightarrow> 'h \<Rightarrow> 'q option \<Rightarrow> 'o list" where
  "prepare qubits hamiltonian control_qubit = []"

definition step_qubit_permutation :: "'q list \<Rightarrow> 'q option \<Rightarrow> 'q list \<times> 'q option" where
  "step_qubit_permutation qubits control_qubit = (qubits, control_qubit)"

definition finish :: "'q list \<Rightarrow> 'h \<Rightarrow> int \<Rightarrow> 'q option \<Rightarrow> bool \<Rightarrow> 'o list" where
  "finish qubits hamiltonian n_steps control_qubit omit_final_swaps = []"

text \<open>
  A driver's bookkeeping of the labelling: it applies the permutation once per step.
\<close>

fun labelling_after :: "nat \<Rightarrow> 'q list \<times> 'q option \<Rightarrow> 'q list \<times> 'q option" where
  "labelling_after 0 l = l"
| "labelling_after (Suc n) l =
     (case labelling_after n l of (qubits, control_qubit) \<Rightarrow>
        step_qubit_permutation qubits control_qubit)"

section \<open>Construction, conversion and representation\<close>

text \<open>
  C3: the constructor fails with its own invalid-argument error exactly when more than
  one of the four angle arguments is supplied, and otherwise it returns a gate; called
  with no argument it returns the gate whose exponent is 1. The error is the
  constructor's own message, so it comes before the helper is called.
\<close>

theorem init_raises_iff:
  "(1 < (of_bool (h \<noteq> None) + of_bool (r \<noteq> None) + of_bool (d \<noteq> None) + of_bool (t \<noteq> None) :: nat)
      \<longrightarrow> DoubleExcitationGate_init h r d t = Inl (ValueError
        ''Redundant exponent specification. Use ONE of half_turns, rads, degs, or duration.''))
   \<and> (\<not> 1 < (of_bool (h \<noteq> None) + of_bool (r \<noteq> None) + of_bool (d \<noteq> None) + of_bool (t \<noteq> None) :: nat)
      \<longrightarrow> (\<exists>g. DoubleExcitationGate_init h r d t = Inr g))
   \<and> (\<exists>g. DoubleExcitationGate_init None None None None = Inr g \<and> half_turns g = FloatE 1
          \<and> py_eq (half_turns g) (IntE 1))"
  by (cases h; cases r; cases d; cases t)
     (simp_all add: DoubleExcitationGate_init_def chosen_angle_to_half_turns_def half_turns_def)

theorem init_raises_iff_witness:
  "DoubleExcitationGate_init (Some (IntE 1)) (Some pi) None None = Inl (ValueError
        ''Redundant exponent specification. Use ONE of half_turns, rads, degs, or duration.'')
   \<and> (\<exists>g. DoubleExcitationGate_init None None (Some 90) None = Inr g)"
  using init_raises_iff [of "Some (IntE 1)" "Some pi" None None]
        init_raises_iff [of None None "Some 90" None]
  by simp

text \<open>
  C6: 180 degrees, \<open>\<pi>\<close> radians and one half-turn give the exponent 1 (the half-turn is
  stored as it was given, the integer 1 or the float 1, which Python's equality does not
  tell apart); a duration \<open>d\<close> gives the exponent \<open>2d/\<pi>\<close>, so the duration \<open>\<pi>/2\<close> gives 1.
\<close>

theorem unit_conversions:
  "DoubleExcitationGate_init None None (Some 180) None = Inr \<lparr>gate_exponent = FloatE 1\<rparr>
   \<and> DoubleExcitationGate_init None (Some pi) None None = Inr \<lparr>gate_exponent = FloatE 1\<rparr>
   \<and> DoubleExcitationGate_init (Some (IntE 1)) None None None = Inr \<lparr>gate_exponent = IntE 1\<rparr>
   \<and> DoubleExcitationGate_init (Some (FloatE 1)) None None None = Inr \<lparr>gate_exponent = FloatE 1\<rparr>
   \<and> py_eq (IntE 1) (FloatE 1)
   \<and> DoubleExcitationGate_init None None None (Some d) = Inr \<lparr>gate_exponent = FloatE (2 * d / pi)\<rparr>
   \<and> DoubleExcitationGate_init None None None (Some (pi / 2)) = Inr \<lparr>gate_exponent = FloatE 1\<rparr>"
  by (simp add: DoubleExcitationGate_init_def chosen_angle_to_half_turns_def)

text \<open>
  C7: re-parameterising a gate with any exponent \<open>x\<close> returns a gate whose half-turns are
  \<open>x\<close>, with the same eigen-components, canonical period and wire symbols. The model is
  purely functional: the gate given is a value and cannot change.
\<close>

theorem with_exponent_frame:
  "\<exists>g. with_exponent self x = Inr g \<and> half_turns g = x
     \<and> eigen_components g = eigen_components self
     \<and> canonical_exponent_period g = canonical_exponent_period self
     \<and> wire_symbols (text_diagram_info g u) = wire_symbols (text_diagram_info self u)"
  by (simp add: with_exponent_def DoubleExcitationGate_init_def chosen_angle_to_half_turns_def
      half_turns_def eigen_components_def canonical_exponent_period_def text_diagram_info_def)

text \<open>
  C9: the textual form is the bare name exactly when the half-turns equal 1, and the
  name, two stars and the \<open>repr\<close> of the exponent otherwise; the default gate
  re-parameterised with the integer 2 reads \<open>DoubleExcitation**2\<close>.
\<close>

theorem repr_cases:
  "(gate_repr hr g = ''DoubleExcitation'') = py_eq (half_turns g) (IntE 1)
   \<and> (\<not> py_eq (half_turns g) (IntE 1) \<longrightarrow>
        gate_repr hr g = ''DoubleExcitation**'' @ py_repr hr (half_turns g))
   \<and> (\<exists>d g2. DoubleExcitation = Inr d \<and> with_exponent d (IntE 2) = Inr g2
        \<and> gate_repr hr g2 = ''DoubleExcitation**2'')"
  by (simp add: gate_repr_def DoubleExcitation_def with_exponent_def DoubleExcitationGate_init_def
       chosen_angle_to_half_turns_def half_turns_def int_repr_def digit_char_def)

theorem repr_cases_witness:
  "gate_repr (\<lambda>e. ''?'') \<lparr>gate_exponent = IntE 3\<rparr> = ''DoubleExcitation**3''
   \<and> gate_repr (\<lambda>e. ''?'') \<lparr>gate_exponent = FloatE 1\<rparr> = ''DoubleExcitation''"
  using repr_cases [of "\<lambda>e. ''?''" "\<lparr>gate_exponent = IntE 3\<rparr>"]
        repr_cases [of "\<lambda>e. ''?''" "\<lparr>gate_exponent = FloatE 1\<rparr>"]
  by (simp add: half_turns_def int_repr_def digit_char_def)

text \<open>
  C10: the module's constant is the gate constructed with no argument, so its half-turns
  are 1 and its textual form is the bare name; the template's \<open>controlled\<close> flag is false.
\<close>

theorem module_constants:
  "(\<exists>g. DoubleExcitation = Inr g \<and> half_turns g = FloatE 1 \<and> py_eq (half_turns g) (IntE 1)
       \<and> gate_repr hr g = ''DoubleExcitation'')
   \<and> DoubleExcitation = DoubleExcitationGate_init None None None None
   \<and> controlled = False"
  by (simp add: gate_repr_def DoubleExcitation_def DoubleExcitationGate_init_def
       chosen_angle_to_half_turns_def half_turns_def controlled_def)

section \<open>The defaults of the Trotter step template\<close>

lemma labelling_after_id: "labelling_after n (qs, c) = (qs, c)"
  by (induction n) (simp_all add: step_qubit_permutation_def)

text \<open>
  C8: the default \<open>prepare\<close> and \<open>finish\<close> emit no operation, the default permutation
  returns the qubits and the control qubit as given, and a driver that applies it after
  each of \<open>n\<close> steps still holds the labelling it started with.
\<close>

theorem trotter_defaults:
  "prepare qubits hamiltonian control_qubit = []
   \<and> finish qubits hamiltonian n_steps control_qubit omit = []
   \<and> step_qubit_permutation qubits control_qubit = (qubits, control_qubit)
   \<and> labelling_after n (qubits, control_qubit) = (qubits, control_qubit)"
  by (simp add: prepare_def finish_def step_qubit_permutation_def labelling_after_id)

end
